theory Spec2Isabelle
  imports Main "HOL-Library.Word"
begin

section \<open>Machine types and the referenced buffer\<close>

text \<open>
  The embedding follows \<^verbatim>\<open>libraries/math/include/Matrix.h\<close>.
  \<^verbatim>\<open>size_t\<close> is taken as a 64-bit unsigned integer: \<open>+\<close> and \<open>*\<close> wrap around.

  A pointer \<^verbatim>\<open>ElementType*\<close> is either \<^verbatim>\<open>nullptr\<close> (\<open>None\<close>) or the position of an
  element relative to the first element of the buffer it points into (\<open>Some k\<close>), so that
  \<^verbatim>\<open>_data.data()\<close> is \<open>Some 0\<close>. Adding an index to a pointer is address arithmetic and
  wraps like \<^verbatim>\<open>size_t\<close>. The buffer itself (the \<^verbatim>\<open>std::vector\<close> owned by a matrix) is a
  list that is passed explicitly. Dereferencing \<^verbatim>\<open>nullptr\<close> or a position outside the
  buffer is undefined behaviour in C++; the model returns \<open>None\<close> there.
\<close>

type_synonym size_t = "64 word"

type_synonym ptr = "size_t option"

definition ptr_add :: "ptr \<Rightarrow> size_t \<Rightarrow> ptr" where
  "ptr_add p k = (case p of None \<Rightarrow> None | Some a \<Rightarrow> Some (a + k))"

definition load :: "'a list \<Rightarrow> ptr \<Rightarrow> 'a option" where
  "load buf p =
     (case p of
        None \<Rightarrow> None
      | Some a \<Rightarrow> if unat a < length buf then Some (buf ! unat a) else None)"

definition store :: "'a list \<Rightarrow> ptr \<Rightarrow> 'a \<Rightarrow> 'a list option" where
  "store buf p v =
     (case p of
        None \<Rightarrow> None
      | Some a \<Rightarrow> if unat a < length buf then Some (buf[unat a := v]) else None)"

section \<open>RectangularMatrixBase and MatrixBase\<close>

datatype MatrixLayout = columnMajor | rowMajor

text \<open>
  \<^verbatim>\<open>RectangularMatrixBase\<close> holds \<^verbatim>\<open>_pData\<close>, \<^verbatim>\<open>_numRows\<close> and \<^verbatim>\<open>_numColumns\<close>. The two
  specialisations of \<^verbatim>\<open>MatrixBase\<close> add one stored increment each (\<^verbatim>\<open>_columnIncrement\<close>
  for \<^verbatim>\<open>columnMajor\<close>, \<^verbatim>\<open>_rowIncrement\<close> for \<^verbatim>\<open>rowMajor\<close>). The template parameter
  \<^verbatim>\<open>Layout\<close> becomes the field \<open>layout\<close>, and the stored increment of whichever
  specialisation is selected is the field \<open>increment\<close>.
\<close>

record MatrixBase =
  pData :: ptr
  numRows :: size_t
  numColumns :: size_t
  layout :: MatrixLayout
  increment :: size_t

definition NumRows :: "'b MatrixBase_scheme \<Rightarrow> size_t" where
  "NumRows m = numRows m"

definition NumColumns :: "'b MatrixBase_scheme \<Rightarrow> size_t" where
  "NumColumns m = numColumns m"

text \<open>
  \<^verbatim>\<open>MatrixBase(size_t numRows, size_t numColumns)\<close>: the pointer is \<^verbatim>\<open>nullptr\<close>, and the
  stored increment is \<^verbatim>\<open>numRows\<close> in the column-major class and \<^verbatim>\<open>numColumns\<close> in the
  row-major class.
\<close>

definition MatrixBase_ctor :: "MatrixLayout \<Rightarrow> size_t \<Rightarrow> size_t \<Rightarrow> MatrixBase" where
  "MatrixBase_ctor lay nr nc =
     \<lparr> pData = None, numRows = nr, numColumns = nc, layout = lay,
       increment = (case lay of columnMajor \<Rightarrow> nr | rowMajor \<Rightarrow> nc) \<rparr>"

definition GetIndex :: "'b MatrixBase_scheme \<Rightarrow> size_t \<Rightarrow> size_t \<Rightarrow> size_t" where
  "GetIndex m rowIndex columnIndex =
     (case layout m of
        columnMajor \<Rightarrow> rowIndex + columnIndex * increment m
      | rowMajor \<Rightarrow> rowIndex * increment m + columnIndex)"

definition GetLayout :: "'b MatrixBase_scheme \<Rightarrow> MatrixLayout" where
  "GetLayout m = (case layout m of columnMajor \<Rightarrow> columnMajor | rowMajor \<Rightarrow> rowMajor)"

definition GetRowIncrement :: "'b MatrixBase_scheme \<Rightarrow> size_t" where
  "GetRowIncrement m = (case layout m of columnMajor \<Rightarrow> 1 | rowMajor \<Rightarrow> increment m)"

definition GetColumnIncrement :: "'b MatrixBase_scheme \<Rightarrow> size_t" where
  "GetColumnIncrement m = (case layout m of columnMajor \<Rightarrow> increment m | rowMajor \<Rightarrow> 1)"

section \<open>ConstVectorReference\<close>

text \<open>
  Modelled from the spec: \<^verbatim>\<open>Vector.h\<close>, which declares \<^verbatim>\<open>ConstVectorReference\<close>, is not
  part of the sources at hand. The specification asks of the vector type an element count,
  strided element access and a construction from base pointer, length and stride, and it
  calls the default-constructed view that \<^verbatim>\<open>GetColumn\<close> returns the empty column view.
  A vector view is therefore a base pointer, a size and an increment, and the default
  view points nowhere and has no elements.
\<close>

record ConstVectorReference =
  vData :: ptr
  vSize :: size_t
  vIncrement :: size_t

text \<open>
  Modelled from the spec: the default constructor of \<^verbatim>\<open>ConstVectorReference\<close>
  (\<^verbatim>\<open>Vector.h\<close> is missing), the "empty/default column view".
\<close>

definition ConstVectorReference_default :: ConstVectorReference where
  "ConstVectorReference_default = \<lparr> vData = None, vSize = 0, vIncrement = 0 \<rparr>"

text \<open>
  Modelled from the spec: the element count and the strided element access that the
  vector type exposes (\<^verbatim>\<open>Vector.h\<close> is missing).
\<close>

definition Size :: "ConstVectorReference \<Rightarrow> size_t" where
  "Size v = vSize v"

definition ConstVectorReference_at :: "'a list \<Rightarrow> ConstVectorReference \<Rightarrow> size_t \<Rightarrow> 'a option" where
  "ConstVectorReference_at buf v i = load buf (ptr_add (vData v) (i * vIncrement v))"

section \<open>ConstMatrixReference\<close>

text \<open>\<^verbatim>\<open>ElementType operator() (size_t rowIndex, size_t columnIndex) const\<close>\<close>

definition ConstMatrixReference_call ::
  "'a list \<Rightarrow> 'b MatrixBase_scheme \<Rightarrow> size_t \<Rightarrow> size_t \<Rightarrow> 'a option" where
  "ConstMatrixReference_call buf m rowIndex columnIndex =
     load buf (ptr_add (pData m) (GetIndex m rowIndex columnIndex))"

text \<open>
  \<^verbatim>\<open>GetBlock\<close>, here and in \<^verbatim>\<open>MatrixReference\<close>, returns
  \<^verbatim>\<open>(_pData + GetIndex(firstRow, firstColumn), numRows, numColumns, _increment)\<close> passed to
  a constructor of its own class. \<^verbatim>\<open>Matrix.h\<close> defines all these classes in full and
  declares no member \<^verbatim>\<open>_increment\<close> (the stored increments are the private
  \<^verbatim>\<open>_columnIncrement\<close> and \<^verbatim>\<open>_rowIncrement\<close>) and no constructor of four parameters
  (only \<^verbatim>\<open>RectangularMatrixBase(pData, numRows, numColumns)\<close> and
  \<^verbatim>\<open>MatrixBase(numRows, numColumns)\<close>). Neither \<^verbatim>\<open>GetBlock\<close> can be instantiated, so
  they denote no function and have no embedding.
\<close>

definition ConstMatrixReference_GetColumn ::
  "'b MatrixBase_scheme \<Rightarrow> size_t \<Rightarrow> ConstVectorReference" where
  "ConstMatrixReference_GetColumn m index = ConstVectorReference_default"

text \<open>\<^verbatim>\<open>bool operator==(const ConstMatrixReference& other) const\<close>\<close>

definition operator_eq :: "'b MatrixBase_scheme \<Rightarrow> 'c MatrixBase_scheme \<Rightarrow> bool" where
  "operator_eq m other =
     (if NumRows m \<noteq> NumRows other \<or> NumColumns m \<noteq> NumColumns other then False
      else True)"

section \<open>MatrixReference\<close>

text \<open>
  \<^verbatim>\<open>ElementType& operator() (size_t rowIndex, size_t columnIndex)\<close> returns a reference,
  that is, the address of the element; an assignment through it is a \<open>store\<close> there.
\<close>

definition MatrixReference_call :: "'b MatrixBase_scheme \<Rightarrow> size_t \<Rightarrow> size_t \<Rightarrow> ptr" where
  "MatrixReference_call m rowIndex columnIndex =
     ptr_add (pData m) (GetIndex m rowIndex columnIndex)"

section \<open>Matrix\<close>

text \<open>
  A \<^verbatim>\<open>Matrix\<close> is a \<^verbatim>\<open>MatrixReference\<close> together with the vector \<^verbatim>\<open>_data\<close> it owns.
  A value of this record with arbitrary fields is also how a mutable view is paired with
  the buffer it points into.
\<close>

record 'a Matrix = MatrixBase +
  data :: "'a list"

text \<open>
  \<^verbatim>\<open>std::vector<ElementType>(n)\<close> belongs to the standard library. It throws
  \<^verbatim>\<open>std::length_error\<close> when \<open>n\<close> exceeds \<^verbatim>\<open>max_size()\<close> and \<^verbatim>\<open>std::bad_alloc\<close> when the
  allocator cannot provide \<open>n\<close> elements; otherwise it holds \<open>n\<close> value-initialised
  elements. Both limits depend on the implementation and on the moment of the call; they
  are the parameters \<open>max_size\<close> and \<open>available\<close> (the allocator provides \<open>n\<close> elements
  exactly when \<open>n \<le> available\<close>). \<^verbatim>\<open>data()\<close> of an empty vector is the null pointer.
\<close>

datatype error = length_error | bad_alloc

definition vector_ctor :: "nat \<Rightarrow> nat \<Rightarrow> size_t \<Rightarrow> error + ('a::zero) list" where
  "vector_ctor max_size available n =
     (if max_size < unat n then Inl length_error
      else if available < unat n then Inl bad_alloc
      else Inr (replicate (unat n) 0))"

definition vector_data :: "'a list \<Rightarrow> ptr" where
  "vector_data d = (if d = [] then None else Some 0)"

text \<open>
  \<^verbatim>\<open>Matrix(size_t numRows, size_t numColumns)\<close>: the base is built from the dimensions,
  \<^verbatim>\<open>_data\<close> is a vector of \<^verbatim>\<open>numRows*numColumns\<close> value-initialised elements (the product
  is a \<^verbatim>\<open>size_t\<close> product), and the body sets \<^verbatim>\<open>_pData = _data.data()\<close>.
  \<open>Matrix_init\<close> is the object once \<^verbatim>\<open>_data\<close> holds the list \<open>d\<close>. \<open>Matrix_construct\<close> is
  the constructor call: an exception of the vector leaves it before any object exists.
  \<open>Matrix_ctor\<close> is the object the call yields when the vector is allocated.
\<close>

definition Matrix_init :: "MatrixLayout \<Rightarrow> size_t \<Rightarrow> size_t \<Rightarrow> 'a list \<Rightarrow> 'a Matrix" where
  "Matrix_init lay nr nc d =
     (let this = MatrixBase.extend (MatrixBase_ctor lay nr nc) (Matrix.fields d)
      in this\<lparr> pData := vector_data d \<rparr>)"

definition Matrix_construct ::
  "nat \<Rightarrow> nat \<Rightarrow> MatrixLayout \<Rightarrow> size_t \<Rightarrow> size_t \<Rightarrow> error + ('a::zero) Matrix" where
  "Matrix_construct max_size available lay nr nc =
     (case vector_ctor max_size available (nr * nc) of
        Inl e \<Rightarrow> Inl e
      | Inr d \<Rightarrow> Inr (Matrix_init lay nr nc d))"

definition Matrix_ctor :: "MatrixLayout \<Rightarrow> size_t \<Rightarrow> size_t \<Rightarrow> ('a::zero) Matrix" where
  "Matrix_ctor lay nr nc = Matrix_init lay nr nc (replicate (unat (nr * nc)) 0)"

text \<open>The statement \<^verbatim>\<open>(*this)(i, j) = v\<close> inside a member of \<^verbatim>\<open>Matrix\<close>.\<close>

definition Matrix_assign :: "'a Matrix \<Rightarrow> size_t \<Rightarrow> size_t \<Rightarrow> 'a \<Rightarrow> 'a Matrix option" where
  "Matrix_assign this i j v =
     (case store (data this) (MatrixReference_call this i j) v of
        None \<Rightarrow> None
      | Some d \<Rightarrow> Some (this\<lparr> data := d \<rparr>))"

text \<open>
  \<^verbatim>\<open>Matrix(std::initializer_list<std::initializer_list<ElementType>> list)\<close>.
  The two nested \<^verbatim>\<open>for\<close> loops walk the rows and the elements of each row, with the
  counters \<^verbatim>\<open>i\<close> and \<^verbatim>\<open>j\<close>. The dimensions come from \<^verbatim>\<open>list.size()\<close> and
  \<^verbatim>\<open>list.begin()->size()\<close>; the latter dereferences the end of an empty list, which is
  undefined behaviour (\<open>None\<close>). No row length is compared with anything. The vector
  is taken to be allocated: a literal that exists in memory has an element count that
  the allocator can provide, short of exhaustion.
\<close>

fun Matrix_fill_row :: "'a Matrix \<Rightarrow> size_t \<Rightarrow> size_t \<Rightarrow> 'a list \<Rightarrow> 'a Matrix option" where
  "Matrix_fill_row this i j [] = Some this"
| "Matrix_fill_row this i j (x # xs) =
     (case Matrix_assign this i j x of
        None \<Rightarrow> None
      | Some this' \<Rightarrow> Matrix_fill_row this' i (j + 1) xs)"

fun Matrix_fill_rows :: "'a Matrix \<Rightarrow> size_t \<Rightarrow> 'a list list \<Rightarrow> 'a Matrix option" where
  "Matrix_fill_rows this i [] = Some this"
| "Matrix_fill_rows this i (row # rows) =
     (case Matrix_fill_row this i 0 row of
        None \<Rightarrow> None
      | Some this' \<Rightarrow> Matrix_fill_rows this' (i + 1) rows)"

definition Matrix_from_list :: "MatrixLayout \<Rightarrow> 'a list list \<Rightarrow> ('a::zero) Matrix option" where
  "Matrix_from_list lay list =
     (case list of
        [] \<Rightarrow> None
      | first # _ \<Rightarrow>
          Matrix_fill_rows
            (Matrix_ctor lay (of_nat (length list)) (of_nat (length first))) 0 list)"

section \<open>Positions as natural numbers\<close>

text \<open>
  Proof devices, not part of the program. \<open>offset_nat\<close> is the index mapping computed in
  the natural numbers, without wrap-around. \<open>Matrix_shape lay R C M\<close> says that \<open>M\<close> is
  laid out like a freshly constructed \<open>R\<close> by \<open>C\<close> matrix whose \<open>R * C\<close> elements fit a
  \<^verbatim>\<open>size_t\<close>, and \<open>cell\<close> reads the buffer of such a matrix at a logical position.
\<close>

definition offset_nat :: "MatrixLayout \<Rightarrow> nat \<Rightarrow> nat \<Rightarrow> nat \<Rightarrow> nat \<Rightarrow> nat" where
  "offset_nat lay R C i j = (case lay of columnMajor \<Rightarrow> i + j * R | rowMajor \<Rightarrow> i * C + j)"

definition Matrix_shape :: "MatrixLayout \<Rightarrow> nat \<Rightarrow> nat \<Rightarrow> 'a Matrix \<Rightarrow> bool" where
  "Matrix_shape lay R C M \<longleftrightarrow>
     pData M = (if R * C = 0 then None else Some 0) \<and>
     numRows M = of_nat R \<and> numColumns M = of_nat C \<and> layout M = lay \<and>
     increment M = (case lay of columnMajor \<Rightarrow> of_nat R | rowMajor \<Rightarrow> of_nat C) \<and>
     length (data M) = R * C \<and> R * C < 2 ^ 64"

definition cell :: "MatrixLayout \<Rightarrow> nat \<Rightarrow> nat \<Rightarrow> 'a Matrix \<Rightarrow> nat \<Rightarrow> nat \<Rightarrow> 'a" where
  "cell lay R C M i j = data M ! offset_nat lay R C i j"

section \<open>The index mapping\<close>

text \<open>
  C1. A matrix built from its dimensions \<open>(nr, nc)\<close> maps \<open>(r, c)\<close> to \<open>r + c * nr\<close> when
  it is column-major and to \<open>r * nc + c\<close> when it is row-major, for all \<open>r\<close> and \<open>c\<close>:
  the stored increment is initialised from the matrix's own dimensions. This holds for
  the layout base and for the owning matrix alike. Both sides are \<^verbatim>\<open>size_t\<close> expressions.
\<close>

theorem GetIndex_of_dimensions:
  "GetIndex (MatrixBase_ctor columnMajor nr nc) r c = r + c * nr \<and>
   GetIndex (MatrixBase_ctor rowMajor nr nc) r c = r * nc + c \<and>
   GetIndex (Matrix_ctor columnMajor nr nc :: ('a::zero) Matrix) r c = r + c * nr \<and>
   GetIndex (Matrix_ctor rowMajor nr nc :: ('a::zero) Matrix) r c = r * nc + c"
  by (simp add: GetIndex_def MatrixBase_ctor_def Matrix_ctor_def Matrix_init_def vector_data_def MatrixBase.extend_def)

subsection \<open>Bounds and injectivity without wrap-around\<close>

lemma offset_nat_less:
  assumes "i < R" and "j < C"
  shows "offset_nat lay R C i j < R * C"
proof (cases lay)
  case columnMajor
  have "i + j * R < R + j * R" using assms by simp
  also have "\<dots> = Suc j * R" by simp
  also have "\<dots> \<le> C * R" using assms by (intro mult_le_mono1) simp
  finally show ?thesis using columnMajor by (simp add: offset_nat_def mult.commute)
next
  case rowMajor
  have "i * C + j < i * C + C" using assms by simp
  also have "\<dots> = Suc i * C" by simp
  also have "\<dots> \<le> R * C" using assms by (intro mult_le_mono1) simp
  finally show ?thesis using rowMajor by (simp add: offset_nat_def)
qed

lemma offset_nat_inj:
  assumes "i < R" and "j < C" and "i' < R" and "j' < C"
    and eq: "offset_nat lay R C i j = offset_nat lay R C i' j'"
  shows "i = i' \<and> j = j'"
proof (cases lay)
  case columnMajor
  with eq have e: "i + j * R = i' + j' * R" by (simp add: offset_nat_def)
  from e have "(i + j * R) mod R = (i' + j' * R) mod R" by simp
  with assms have i: "i = i'" by simp
  with e have "j * R = j' * R" by simp
  with assms show ?thesis using i by simp
next
  case rowMajor
  with eq have e: "i * C + j = i' * C + j'" by (simp add: offset_nat_def)
  from e have "(i * C + j) mod C = (i' * C + j') mod C" by simp
  with assms have j: "j = j'" by simp
  with e have "i * C = i' * C" by simp
  with assms show ?thesis using j by simp
qed

lemma unat_of_nat_64: "n < 2 ^ 64 \<Longrightarrow> unat (of_nat n :: size_t) = n"
  by (simp add: unat_of_nat)

lemma GetIndex_of_nat:
  assumes "layout m = lay"
    and "increment m = (case lay of columnMajor \<Rightarrow> of_nat R | rowMajor \<Rightarrow> of_nat C)"
  shows "GetIndex m (of_nat i) (of_nat j) = of_nat (offset_nat lay R C i j)"
  using assms by (cases lay) (simp_all add: GetIndex_def offset_nat_def)

lemma GetIndex_unat:
  assumes "layout m = lay"
    and "increment m = (case lay of columnMajor \<Rightarrow> of_nat R | rowMajor \<Rightarrow> of_nat C)"
    and "i < R" and "j < C" and "R * C < 2 ^ 64"
  shows "unat (GetIndex m (of_nat i) (of_nat j)) = offset_nat lay R C i j"
proof -
  have "offset_nat lay R C i j < 2 ^ 64"
    using offset_nat_less [OF assms(3,4), of lay] assms(5) by simp
  then show ?thesis
    by (simp add: GetIndex_of_nat [OF assms(1,2)] unat_of_nat_64)
qed

lemma GetIndex_constructed_unat:
  assumes "unat nr * unat nc < 2 ^ 64" and "r < nr" and "c < nc"
  shows "unat (GetIndex (MatrixBase_ctor lay nr nc) r c) =
           offset_nat lay (unat nr) (unat nc) (unat r) (unat c)"
proof -
  let ?m = "MatrixBase_ctor lay nr nc"
  have "layout ?m = lay"
    and "increment ?m =
           (case lay of columnMajor \<Rightarrow> of_nat (unat nr) | rowMajor \<Rightarrow> of_nat (unat nc))"
    by (cases lay; simp add: MatrixBase_ctor_def)+
  from GetIndex_unat [OF this, of "unat r" "unat c"] assms
  show ?thesis by (simp add: word_less_nat_alt)
qed

lemma GetIndex_Matrix_ctor:
  "GetIndex (Matrix_ctor lay nr nc) r c = GetIndex (MatrixBase_ctor lay nr nc) r c"
  by (cases lay) (simp_all add: GetIndex_def Matrix_ctor_def Matrix_init_def vector_data_def MatrixBase_ctor_def MatrixBase.extend_def)

text \<open>
  C2, as the code has it. The claim holds for every shape only when the product of the
  dimensions fits a \<^verbatim>\<open>size_t\<close>. \<^verbatim>\<open>Matrix(numRows, numColumns)\<close> accepts any pair of
  dimensions and computes \<^verbatim>\<open>numRows*numColumns\<close> and every offset modulo \<open>2^64\<close>: for a
  column-major matrix of \<open>2^33\<close> by \<open>2^33\<close> the valid positions \<open>(0, 2^31)\<close> and \<open>(0, 0)\<close>
  share offset 0, and for \<open>2^32\<close> by \<open>2^32\<close> the offset 1 of the valid position \<open>(1, 0)\<close>
  is not below the wrapped product 0.
\<close>

theorem GetIndex_wraps_on_large_dimensions:
  "(0::size_t) < NumRows (Matrix_ctor columnMajor 8589934592 8589934592 :: int Matrix) \<and>
   (2147483648::size_t) < NumColumns (Matrix_ctor columnMajor 8589934592 8589934592 :: int Matrix) \<and>
   GetIndex (Matrix_ctor columnMajor 8589934592 8589934592 :: int Matrix) 0 2147483648 =
     GetIndex (Matrix_ctor columnMajor 8589934592 8589934592 :: int Matrix) 0 0 \<and>
   (2147483648::size_t) \<noteq> 0 \<and>
   (1::size_t) < NumRows (Matrix_ctor columnMajor 4294967296 4294967296 :: int Matrix) \<and>
   (0::size_t) < NumColumns (Matrix_ctor columnMajor 4294967296 4294967296 :: int Matrix) \<and>
   \<not> GetIndex (Matrix_ctor columnMajor 4294967296 4294967296 :: int Matrix) 1 0
        < 4294967296 * 4294967296"
  by (simp add: GetIndex_def Matrix_ctor_def Matrix_init_def vector_data_def MatrixBase_ctor_def MatrixBase.extend_def
      NumRows_def NumColumns_def word_less_nat_alt)

text \<open>
  C2 (amended). For every non-block matrix of shape \<open>(nr, nc)\<close> whose element count
  \<open>nr * nc\<close> does not overflow \<^verbatim>\<open>size_t\<close>, and either layout, the offset of a valid index
  pair lies in \<open>[0, nr * nc)\<close>, and two valid index pairs with the same offset are the same
  pair. The owning matrix computes the same offsets as its layout base.
\<close>

theorem GetIndex_injective_in_range:
  assumes "unat nr * unat nc < 2 ^ 64"
    and "r < nr" and "c < nc" and "r' < nr" and "c' < nc"
  shows "GetIndex (MatrixBase_ctor lay nr nc) r c < nr * nc \<and>
         unat (GetIndex (MatrixBase_ctor lay nr nc) r c) < unat nr * unat nc \<and>
         (GetIndex (MatrixBase_ctor lay nr nc) r c = GetIndex (MatrixBase_ctor lay nr nc) r' c'
            \<longrightarrow> r = r' \<and> c = c') \<and>
         GetIndex (Matrix_ctor lay nr nc :: ('a::zero) Matrix) r c =
           GetIndex (MatrixBase_ctor lay nr nc) r c"
proof -
  let ?g = "GetIndex (MatrixBase_ctor lay nr nc)"
  have u: "unat (?g r c) = offset_nat lay (unat nr) (unat nc) (unat r) (unat c)"
    and u': "unat (?g r' c') = offset_nat lay (unat nr) (unat nc) (unat r') (unat c')"
    using assms by (simp_all add: GetIndex_constructed_unat)
  have b: "unat r < unat nr" "unat c < unat nc" "unat r' < unat nr" "unat c' < unat nc"
    using assms by (simp_all add: word_less_nat_alt)
  have prod: "unat (nr * nc) = unat nr * unat nc"
    using assms(1) by (simp add: unat_mult_lem [THEN iffD1])
  have less: "unat (?g r c) < unat nr * unat nc"
    using offset_nat_less [OF b(1,2), of lay] u by simp
  then have wless: "?g r c < nr * nc"
    by (simp add: word_less_nat_alt prod)
  have inj: "r = r' \<and> c = c'" if "?g r c = ?g r' c'"
  proof -
    from that u u' have "offset_nat lay (unat nr) (unat nc) (unat r) (unat c) =
        offset_nat lay (unat nr) (unat nc) (unat r') (unat c')" by simp
    from offset_nat_inj [OF b this] show ?thesis by (simp add: word_unat_eq_iff)
  qed
  show ?thesis using less wless inj GetIndex_Matrix_ctor [of lay nr nc r c] by blast
qed

theorem GetIndex_injective_in_range_witness:
  "unat (2::size_t) * unat (3::size_t) < 2 ^ 64 \<and>
   (1::size_t) < 2 \<and> (2::size_t) < 3 \<and> (0::size_t) < 2 \<and> (1::size_t) < 3 \<and>
   GetIndex (MatrixBase_ctor rowMajor 2 3) 1 2 < 2 * 3 \<and>
   GetIndex (MatrixBase_ctor rowMajor 2 3) 1 2 \<noteq> GetIndex (MatrixBase_ctor rowMajor 2 3) 0 1"
proof -
  have h: "unat (2::size_t) * unat (3::size_t) < 2 ^ 64"
    "(1::size_t) < 2" "(2::size_t) < 3" "(0::size_t) < 2" "(1::size_t) < 3"
    by simp_all
  from GetIndex_injective_in_range [OF h, where 'a = int and lay = rowMajor]
  show ?thesis using h by auto
qed

section \<open>Equality\<close>

text \<open>
  C3. The claim asks \<^verbatim>\<open>operator==\<close> to compare every pair of corresponding elements.
  The operator returns after the comparison of the dimensions: it is true exactly when
  the two row counts and the two column counts agree, whatever the elements are.
\<close>

theorem operator_eq_compares_dimensions_only:
  "operator_eq m other \<longleftrightarrow> NumRows m = NumRows other \<and> NumColumns m = NumColumns other"
  by (simp add: operator_eq_def)

text \<open>
  The matrices built from the literals \<open>[ [1] ]\<close> and \<open>[ [2] ]\<close> have the same dimensions,
  differ in their only element, and compare equal.
\<close>

theorem operator_eq_differing_elements:
  "(case (Matrix_from_list rowMajor [ [1::int] ], Matrix_from_list rowMajor [ [2::int] ]) of
      (Some a, Some b) \<Rightarrow>
        operator_eq a b \<and>
        ConstMatrixReference_call (data a) a 0 0 = Some 1 \<and>
        ConstMatrixReference_call (data b) b 0 0 = Some 2
    | _ \<Rightarrow> False)"
proof -
  let ?a = "\<lparr> pData = Some 0, numRows = 1, numColumns = 1, layout = rowMajor, increment = 1,
              data = [1::int] \<rparr>"
  let ?b = "\<lparr> pData = Some 0, numRows = 1, numColumns = 1, layout = rowMajor, increment = 1,
              data = [2::int] \<rparr>"
  have a: "Matrix_from_list rowMajor [ [1::int] ] = Some ?a"
    and b: "Matrix_from_list rowMajor [ [2::int] ] = Some ?b"
    by code_simp+
  have eq: "operator_eq ?a ?b"
    using operator_eq_compares_dimensions_only [of ?a ?b]
    by (simp add: NumRows_def NumColumns_def)
  have elems: "ConstMatrixReference_call (data ?a) ?a 0 0 = Some 1"
    "ConstMatrixReference_call (data ?b) ?b 0 0 = Some 2"
    by (simp_all add: ConstMatrixReference_call_def GetIndex_def ptr_add_def load_def)
  show ?thesis unfolding a b using eq elems by simp
qed

section \<open>Column extraction\<close>

text \<open>
  C4. The claim asks \<^verbatim>\<open>GetColumn(index)\<close> for a view of length \<^verbatim>\<open>NumRows()\<close> over the
  elements of that column. The function ignores both the matrix and the index and
  returns a default-constructed view: for the 2 by 3 row-major matrix built from
  \<open>[ [1,2,3],[4,5,6] ]\<close> the view of column 0 has no elements, and it is the same view as
  column 1 of the matrix built from \<open>[ [7,8],[9,10] ]\<close>.
\<close>

theorem GetColumn_of_literal:
  "(case (Matrix_from_list rowMajor [ [1, 2, 3], [4, 5, 6::int] ],
          Matrix_from_list rowMajor [ [7, 8], [9, 10::int] ]) of
      (Some m, Some m') \<Rightarrow>
        NumRows m = 2 \<and>
        ConstMatrixReference_call (data m) m 0 0 = Some 1 \<and>
        ConstMatrixReference_call (data m) m 1 0 = Some 4 \<and>
        Size (ConstMatrixReference_GetColumn m 0) = 0 \<and>
        ConstVectorReference_at (data m) (ConstMatrixReference_GetColumn m 0) 0 = None \<and>
        ConstMatrixReference_GetColumn m 0 = ConstMatrixReference_GetColumn m' 1
    | _ \<Rightarrow> False)"
  by code_simp

section \<open>Construction\<close>

lemma Matrix_shape_call:
  assumes "Matrix_shape lay R C M" and "i < R" and "j < C"
  shows "MatrixReference_call M (of_nat i) (of_nat j) = Some (of_nat (offset_nat lay R C i j))"
    and "unat (of_nat (offset_nat lay R C i j) :: size_t) = offset_nat lay R C i j"
    and "offset_nat lay R C i j < length (data M)"
proof -
  have lay: "layout M = lay"
    and inc: "increment M = (case lay of columnMajor \<Rightarrow> of_nat R | rowMajor \<Rightarrow> of_nat C)"
    and p0: "pData M = (if R * C = 0 then None else Some 0)"
    and len: "length (data M) = R * C" and small: "R * C < 2 ^ 64"
    using assms(1) by (simp_all add: Matrix_shape_def)
  have p: "pData M = Some 0"
    using p0 assms(2,3) by (cases "R * C = 0") auto
  show "MatrixReference_call M (of_nat i) (of_nat j) = Some (of_nat (offset_nat lay R C i j))"
    by (simp add: MatrixReference_call_def ptr_add_def p GetIndex_of_nat [OF lay inc])
  show "offset_nat lay R C i j < length (data M)"
    using offset_nat_less [OF assms(2,3), of lay] len by simp
  then show "unat (of_nat (offset_nat lay R C i j) :: size_t) = offset_nat lay R C i j"
    using len small by (simp add: unat_of_nat_64)
qed

lemma Matrix_shape_read:
  assumes "Matrix_shape lay R C M" and "i < R" and "j < C"
  shows "ConstMatrixReference_call (data M) M (of_nat i) (of_nat j) = Some (cell lay R C M i j)"
proof -
  have "ConstMatrixReference_call (data M) M (of_nat i) (of_nat j) =
          load (data M) (MatrixReference_call M (of_nat i) (of_nat j))"
    by (simp add: ConstMatrixReference_call_def MatrixReference_call_def)
  then show ?thesis
    using Matrix_shape_call [OF assms] by (simp add: load_def cell_def)
qed

lemma Matrix_shape_assign:
  assumes "Matrix_shape lay R C M" and "i < R" and "j < C"
  shows "\<exists>M'. Matrix_assign M (of_nat i) (of_nat j) v = Some M' \<and> Matrix_shape lay R C M' \<and>
           (\<forall>i' < R. \<forall>j' < C. cell lay R C M' i' j' =
              (if i' = i \<and> j' = j then v else cell lay R C M i' j'))"
proof -
  let ?k = "offset_nat lay R C i j"
  let ?M' = "M\<lparr> data := (data M)[?k := v] \<rparr>"
  note c = Matrix_shape_call [OF assms]
  have step: "Matrix_assign M (of_nat i) (of_nat j) v = Some ?M'"
    using c by (simp add: Matrix_assign_def store_def)
  have shape: "Matrix_shape lay R C ?M'"
    using assms(1) by (simp add: Matrix_shape_def)
  have cells: "cell lay R C ?M' i' j' = (if i' = i \<and> j' = j then v else cell lay R C M i' j')"
    if "i' < R" and "j' < C" for i' j'
  proof (cases "i' = i \<and> j' = j")
    case True
    then show ?thesis using c(3) by (simp add: cell_def)
  next
    case False
    then have "offset_nat lay R C i' j' \<noteq> ?k"
      using offset_nat_inj [OF that assms(2,3), of lay] by blast
    with False show ?thesis by (auto simp: cell_def)
  qed
  show ?thesis using step shape cells by blast
qed

lemma Matrix_fill_row_shape:
  assumes "Matrix_shape lay R C M" and "i < R" and "j0 + length xs \<le> C"
  shows "\<exists>M'. Matrix_fill_row M (of_nat i) (of_nat j0) xs = Some M' \<and> Matrix_shape lay R C M' \<and>
           (\<forall>i' < R. \<forall>j < C. cell lay R C M' i' j =
              (if i' = i \<and> j0 \<le> j \<and> j < j0 + length xs then xs ! (j - j0)
               else cell lay R C M i' j))"
  using assms
proof (induction xs arbitrary: M j0)
  case Nil
  then show ?case by auto
next
  case (Cons x xs)
  from Cons.prems have j0: "j0 < C" by simp
  obtain M1 where a: "Matrix_assign M (of_nat i) (of_nat j0) x = Some M1"
    and s1: "Matrix_shape lay R C M1"
    and c1: "\<And>i' j'. i' < R \<Longrightarrow> j' < C \<Longrightarrow>
               cell lay R C M1 i' j' = (if i' = i \<and> j' = j0 then x else cell lay R C M i' j')"
    using Matrix_shape_assign [OF Cons.prems(1,2) j0, of x] by blast
  from Cons.prems have "Suc j0 + length xs \<le> C" by simp
  from Cons.IH [OF s1 Cons.prems(2) this]
  obtain M2 where f: "Matrix_fill_row M1 (of_nat i) (of_nat (Suc j0)) xs = Some M2"
    and s2: "Matrix_shape lay R C M2"
    and c2: "\<And>i' j. i' < R \<Longrightarrow> j < C \<Longrightarrow>
               cell lay R C M2 i' j =
                 (if i' = i \<and> Suc j0 \<le> j \<and> j < Suc j0 + length xs then xs ! (j - Suc j0)
                  else cell lay R C M1 i' j)"
    by blast
  have run: "Matrix_fill_row M (of_nat i) (of_nat j0) (x # xs) = Some M2"
    using a f by (simp add: add.commute)
  have cells: "cell lay R C M2 i' j =
      (if i' = i \<and> j0 \<le> j \<and> j < j0 + length (x # xs) then (x # xs) ! (j - j0)
       else cell lay R C M i' j)" if "i' < R" and "j < C" for i' j
  proof (cases "i' = i \<and> Suc j0 \<le> j \<and> j < Suc j0 + length xs")
    case True
    then have "(x # xs) ! (j - j0) = xs ! (j - Suc j0)"
      by (simp add: nth_Cons')
    then show ?thesis using True c2 [OF that] by simp
  next
    case False
    then show ?thesis using c2 [OF that] c1 [OF that] by auto
  qed
  show ?case using run s2 cells by blast
qed

lemma Matrix_fill_rows_shape:
  assumes "Matrix_shape lay R C M" and "i0 + length rows \<le> R"
    and "\<forall>row \<in> set rows. length row = C"
  shows "\<exists>M'. Matrix_fill_rows M (of_nat i0) rows = Some M' \<and> Matrix_shape lay R C M' \<and>
           (\<forall>i < R. \<forall>j < C. cell lay R C M' i j =
              (if i0 \<le> i \<and> i < i0 + length rows then rows ! (i - i0) ! j
               else cell lay R C M i j))"
  using assms
proof (induction rows arbitrary: M i0)
  case Nil
  then show ?case by auto
next
  case (Cons row rows)
  from Cons.prems have i0: "i0 < R" and len: "0 + length row \<le> C" by simp_all
  obtain M1 where a: "Matrix_fill_row M (of_nat i0) 0 row = Some M1"
    and s1: "Matrix_shape lay R C M1"
    and c1: "\<And>i' j. i' < R \<Longrightarrow> j < C \<Longrightarrow>
               cell lay R C M1 i' j =
                 (if i' = i0 \<and> 0 \<le> j \<and> j < 0 + length row then row ! (j - 0)
                  else cell lay R C M i' j)"
    using Matrix_fill_row_shape [OF Cons.prems(1) i0 len] by auto
  from Cons.prems have "Suc i0 + length rows \<le> R" and "\<forall>r \<in> set rows. length r = C"
    by simp_all
  from Cons.IH [OF s1 this]
  obtain M2 where f: "Matrix_fill_rows M1 (of_nat (Suc i0)) rows = Some M2"
    and s2: "Matrix_shape lay R C M2"
    and c2: "\<And>i j. i < R \<Longrightarrow> j < C \<Longrightarrow>
               cell lay R C M2 i j =
                 (if Suc i0 \<le> i \<and> i < Suc i0 + length rows then rows ! (i - Suc i0) ! j
                  else cell lay R C M1 i j)"
    by blast
  have run: "Matrix_fill_rows M (of_nat i0) (row # rows) = Some M2"
    using a f by (simp add: add.commute)
  have rowlen: "length row = C" using Cons.prems(3) by simp
  have cells: "cell lay R C M2 i j =
      (if i0 \<le> i \<and> i < i0 + length (row # rows) then (row # rows) ! (i - i0) ! j
       else cell lay R C M i j)" if "i < R" and "j < C" for i j
  proof (cases "Suc i0 \<le> i \<and> i < Suc i0 + length rows")
    case True
    then have "(row # rows) ! (i - i0) = rows ! (i - Suc i0)"
      by (simp add: nth_Cons')
    then show ?thesis using True c2 [OF that] by simp
  next
    case False
    then show ?thesis using c2 [OF that] c1 [OF that] rowlen that by auto
  qed
  show ?case using run s2 cells by blast
qed

lemma Matrix_ctor_shape:
  assumes "R * C < 2 ^ 64"
  shows "Matrix_shape lay R C (Matrix_ctor lay (of_nat R) (of_nat C) :: ('a::zero) Matrix)"
proof -
  have "unat (of_nat R * of_nat C :: size_t) = R * C"
    using unat_of_nat_64 [OF assms] by simp
  then show ?thesis
    using assms
    by (simp add: Matrix_shape_def Matrix_ctor_def Matrix_init_def vector_data_def MatrixBase_ctor_def MatrixBase.extend_def
        Matrix.fields_def)
qed

lemma Matrix_ctor_cell:
  assumes "R * C < 2 ^ 64" and "i < R" and "j < C"
  shows "cell lay R C (Matrix_ctor lay (of_nat R) (of_nat C) :: ('a::zero) Matrix) i j = 0"
proof -
  have "unat (of_nat R * of_nat C :: size_t) = R * C"
    using unat_of_nat_64 [OF assms(1)] by simp
  then show ?thesis
    using offset_nat_less [OF assms(2,3), of lay]
    by (simp add: cell_def Matrix_ctor_def Matrix_init_def vector_data_def MatrixBase_ctor_def MatrixBase.extend_def
        Matrix.fields_def)
qed

text \<open>
  C5. The claim asks the literal constructor to report a \<open>MalformedLiteral\<close> error and to
  produce no matrix when a row is shorter or longer than the first. The constructor
  compares no lengths (the comment in the outer loop announces the check; no statement
  performs it): for the literal \<open>[ [1,2],[3] ]\<close> it returns a 2 by 2 matrix whose position
  \<open>(1, 1)\<close> keeps its initial \<open>0\<close>.
\<close>

theorem Matrix_from_list_ragged:
  "Matrix_from_list rowMajor [ [1, 2], [3::int] ] =
     Some \<lparr> pData = Some 0, numRows = 2, numColumns = 2, layout = rowMajor, increment = 2,
            data = [1, 2, 3, 0] \<rparr>"
  by code_simp

text \<open>
  C8. For every well-formed nested literal (it has a first row, every row has the length
  of the first, and it is a literal that a \<^verbatim>\<open>std::initializer_list\<close> can hold: its row
  count and its element count fit a \<^verbatim>\<open>size_t\<close>) and either layout, the constructor
  returns a matrix with as many rows as the literal, as many columns as the first row has
  elements, the requested layout, and element \<open>(i, j)\<close> equal to the \<open>j\<close>-th value of the
  \<open>i\<close>-th row.
\<close>

theorem Matrix_from_list_well_formed:
  assumes "list \<noteq> []"
    and "\<forall>row \<in> set list. length row = length (hd list)"
    and "length list < 2 ^ 64"
    and "length list * length (hd list) < 2 ^ 64"
  shows "\<exists>M. Matrix_from_list lay list = Some (M :: ('a::zero) Matrix) \<and>
           unat (NumRows M) = length list \<and>
           unat (NumColumns M) = length (hd list) \<and>
           GetLayout M = lay \<and>
           (\<forall>i < length list. \<forall>j < length (hd list).
              ConstMatrixReference_call (data M) M (of_nat i) (of_nat j) = Some (list ! i ! j))"
proof -
  let ?R = "length list" and ?C = "length (hd list)"
  let ?M0 = "Matrix_ctor lay (of_nat ?R) (of_nat ?C) :: 'a Matrix"
  obtain first rest where l: "list = first # rest" using assms(1) by (cases list) auto
  have s0: "Matrix_shape lay ?R ?C ?M0" by (rule Matrix_ctor_shape [OF assms(4)])
  have "0 + length list \<le> ?R" by simp
  from Matrix_fill_rows_shape [OF s0 this assms(2)]
  obtain M where f: "Matrix_fill_rows ?M0 0 list = Some M"
    and s: "Matrix_shape lay ?R ?C M"
    and c: "\<And>i j. i < ?R \<Longrightarrow> j < ?C \<Longrightarrow> cell lay ?R ?C M i j = list ! i ! j"
    by auto
  have run: "Matrix_from_list lay list = Some M"
    using f l by (simp add: Matrix_from_list_def)
  have C: "?C < 2 ^ 64"
  proof (rule le_less_trans [OF _ assms(4)])
    show "?C \<le> ?R * ?C" using assms(1) by (cases list) simp_all
  qed
  have dims: "unat (NumRows M) = ?R" "unat (NumColumns M) = ?C" "GetLayout M = lay"
    using s assms(3) C
    by (simp_all add: Matrix_shape_def NumRows_def NumColumns_def GetLayout_def unat_of_nat_64
        split: MatrixLayout.split)
  have reads: "ConstMatrixReference_call (data M) M (of_nat i) (of_nat j) = Some (list ! i ! j)"
    if "i < ?R" and "j < ?C" for i j
    using Matrix_shape_read [OF s that] c [OF that] by simp
  show ?thesis using run dims reads by blast
qed

theorem Matrix_from_list_well_formed_witness:
  "[ [1, 2, 3], [4, 5, 6::int] ] \<noteq> [] \<and>
   (\<exists>M. Matrix_from_list columnMajor [ [1, 2, 3], [4, 5, 6::int] ] = Some M \<and>
        unat (NumRows M) = 2 \<and> unat (NumColumns M) = 3 \<and>
        ConstMatrixReference_call (data M) M 1 2 = Some 6)"
proof -
  let ?l = "[ [1, 2, 3], [4, 5, 6::int] ]"
  have h: "?l \<noteq> []" "\<forall>row \<in> set ?l. length row = length (hd ?l)"
    "length ?l < 2 ^ 64" "length ?l * length (hd ?l) < 2 ^ 64"
    by simp_all
  from Matrix_from_list_well_formed [OF h, of columnMajor]
  obtain M where run: "Matrix_from_list columnMajor ?l = Some M"
    and dims: "unat (NumRows M) = length ?l" "unat (NumColumns M) = length (hd ?l)"
    and elems: "\<And>i j. i < length ?l \<Longrightarrow> j < length (hd ?l) \<Longrightarrow>
        ConstMatrixReference_call (data M) M (of_nat i) (of_nat j) = Some (?l ! i ! j)"
    by blast
  have "ConstMatrixReference_call (data M) M (of_nat 1) (of_nat 2) = Some (?l ! 1 ! 2)"
    by (rule elems) simp_all
  then have "ConstMatrixReference_call (data M) M 1 2 = Some 6"
    by simp
  then show ?thesis using run dims by simp
qed

lemma Matrix_construct_allocated:
  assumes "unat (nr * nc) \<le> max_size" and "unat (nr * nc) \<le> available"
  shows "Matrix_construct max_size available lay nr nc = Inr (Matrix_ctor lay nr nc)"
  using assms by (simp add: Matrix_construct_def vector_ctor_def Matrix_ctor_def)

text \<open>
  C9, as the code has it. The buffer has \<^verbatim>\<open>numRows*numColumns\<close> elements, a \<^verbatim>\<open>size_t\<close>
  product, and the vector may refuse the size. With the largest limits a 64-bit
  implementation can have (\<open>2^63 - 1\<close> elements): for \<open>2^33\<close> by \<open>2^33\<close> the product wraps
  to 0, the matrix is constructed with an empty buffer, and reading its valid position
  \<open>(0, 0)\<close> reads outside the buffer; for \<open>2^63\<close> by \<open>1\<close> the product does not wrap, the
  vector throws \<^verbatim>\<open>std::length_error\<close> and no matrix is constructed.
\<close>

theorem Matrix_construct_large_dimensions:
  "Matrix_construct 9223372036854775807 9223372036854775807 columnMajor 8589934592 8589934592 =
     Inr (Matrix_ctor columnMajor 8589934592 8589934592 :: int Matrix) \<and>
   (0::size_t) < NumRows (Matrix_ctor columnMajor 8589934592 8589934592 :: int Matrix) \<and>
   (0::size_t) < NumColumns (Matrix_ctor columnMajor 8589934592 8589934592 :: int Matrix) \<and>
   data (Matrix_ctor columnMajor 8589934592 8589934592 :: int Matrix) = [] \<and>
   ConstMatrixReference_call
     (data (Matrix_ctor columnMajor 8589934592 8589934592 :: int Matrix))
     (Matrix_ctor columnMajor 8589934592 8589934592 :: int Matrix) 0 0 = None \<and>
   (Matrix_construct 9223372036854775807 9223372036854775807 columnMajor 9223372036854775808 1
      :: error + int Matrix) = Inl length_error"
  by (simp add: Matrix_construct_def vector_ctor_def Matrix_ctor_def Matrix_init_def
      vector_data_def MatrixBase_ctor_def MatrixBase.extend_def Matrix.fields_def
      NumRows_def NumColumns_def ConstMatrixReference_call_def GetIndex_def ptr_add_def load_def)

text \<open>
  C9 (amended). For every \<open>(nr, nc)\<close> whose product does not overflow \<^verbatim>\<open>size_t\<close> and is a
  size the vector can allocate (at most \<^verbatim>\<open>max_size()\<close>, and provided by the allocator),
  and either layout, the dimensioned constructor returns a matrix of these dimensions and
  this layout over a buffer of exactly \<open>nr * nc\<close> zeros, and the element at every valid
  \<open>(r, c)\<close> is 0. Shapes with no rows or no columns are included.
\<close>

theorem Matrix_construct_zero:
  assumes "unat nr * unat nc < 2 ^ 64"
    and "unat nr * unat nc \<le> max_size"
    and "unat nr * unat nc \<le> available"
  shows "\<exists>M :: ('a::zero) Matrix.
           Matrix_construct max_size available lay nr nc = Inr M \<and>
           data M = replicate (unat nr * unat nc) 0 \<and>
           NumRows M = nr \<and> NumColumns M = nc \<and> GetLayout M = lay \<and>
           (\<forall>r c. r < nr \<and> c < nc \<longrightarrow> ConstMatrixReference_call (data M) M r c = Some 0)"
proof -
  let ?M = "Matrix_ctor lay nr nc :: 'a Matrix"
  have prod: "unat (nr * nc) = unat nr * unat nc"
    using assms(1) by (simp add: unat_mult_lem [THEN iffD1])
  have run: "Matrix_construct max_size available lay nr nc = Inr ?M"
    using assms(2,3) by (simp add: Matrix_construct_allocated prod)
  have d: "data ?M = replicate (unat nr * unat nc) 0"
    by (simp add: Matrix_ctor_def Matrix_init_def MatrixBase.extend_def Matrix.fields_def prod)
  have dims: "NumRows ?M = nr" "NumColumns ?M = nc" "GetLayout ?M = lay"
    by (simp_all add: Matrix_ctor_def Matrix_init_def MatrixBase_ctor_def MatrixBase.extend_def
        NumRows_def NumColumns_def GetLayout_def split: MatrixLayout.split)
  have s: "Matrix_shape lay (unat nr) (unat nc) ?M"
    using Matrix_ctor_shape [OF assms(1), of lay] by simp
  have zero: "ConstMatrixReference_call (data ?M) ?M r c = Some 0" if "r < nr" and "c < nc" for r c
  proof -
    have b: "unat r < unat nr" "unat c < unat nc"
      using that by (simp_all add: word_less_nat_alt)
    have "ConstMatrixReference_call (data ?M) ?M r c =
            Some (cell lay (unat nr) (unat nc) ?M (unat r) (unat c))"
      using Matrix_shape_read [OF s b] by simp
    moreover have "cell lay (unat nr) (unat nc) ?M (unat r) (unat c) = 0"
      using Matrix_ctor_cell [OF assms(1) b, of lay] by simp
    ultimately show ?thesis by simp
  qed
  show ?thesis using run d dims zero by blast
qed

theorem Matrix_construct_zero_witness:
  "unat (3::size_t) * unat (3::size_t) \<le> 1000 \<and> (1::size_t) < 3 \<and> (2::size_t) < 3 \<and>
   (\<exists>M :: int Matrix.
      Matrix_construct 1152921504606846975 1000 columnMajor 3 3 = Inr M \<and>
      data M = [0, 0, 0, 0, 0, 0, 0, 0, 0] \<and>
      ConstMatrixReference_call (data M) M 1 2 = Some 0) \<and>
   (\<exists>M :: int Matrix.
      Matrix_construct 1152921504606846975 1000 rowMajor 0 5 = Inr M \<and>
      data M = [] \<and> NumRows M = 0 \<and> NumColumns M = 5)"
proof -
  have h: "unat (3::size_t) * unat (3::size_t) < 2 ^ 64"
    "unat (3::size_t) * unat (3::size_t) \<le> 1152921504606846975"
    "unat (3::size_t) * unat (3::size_t) \<le> 1000"
    and v: "(1::size_t) < 3" "(2::size_t) < 3"
    by simp_all
  have h0: "unat (0::size_t) * unat (5::size_t) < 2 ^ 64"
    "unat (0::size_t) * unat (5::size_t) \<le> 1152921504606846975"
    "unat (0::size_t) * unat (5::size_t) \<le> 1000"
    by simp_all
  have rep: "replicate (unat (3::size_t) * unat (3::size_t)) (0::int) =
      [0, 0, 0, 0, 0, 0, 0, 0, 0]"
    by code_simp
  from Matrix_construct_zero [OF h, where 'a = int and lay = columnMajor]
  obtain M :: "int Matrix"
    where "Matrix_construct 1152921504606846975 1000 columnMajor 3 3 = Inr M"
      and "data M = replicate (unat (3::size_t) * unat (3::size_t)) 0"
      and "\<And>r c. r < 3 \<Longrightarrow> c < 3 \<Longrightarrow> ConstMatrixReference_call (data M) M r c = Some 0"
    by blast
  then have first: "\<exists>M :: int Matrix.
      Matrix_construct 1152921504606846975 1000 columnMajor 3 3 = Inr M \<and>
      data M = [0, 0, 0, 0, 0, 0, 0, 0, 0] \<and>
      ConstMatrixReference_call (data M) M 1 2 = Some 0"
    using rep v by auto
  from Matrix_construct_zero [OF h0, where 'a = int and lay = rowMajor]
  have second: "\<exists>M :: int Matrix.
      Matrix_construct 1152921504606846975 1000 rowMajor 0 5 = Inr M \<and>
      data M = [] \<and> NumRows M = 0 \<and> NumColumns M = 5"
    by auto
  show ?thesis using h(3) v first second by blast
qed

section \<open>Writing an element\<close>

lemma store_frame:
  assumes "MatrixReference_call M row col = Some a" and "unat a < length (data M)"
  shows "\<exists>M'. Matrix_assign M row col v = Some M' \<and>
           pData M' = pData M \<and> NumRows M' = NumRows M \<and> NumColumns M' = NumColumns M \<and>
           GetLayout M' = GetLayout M \<and> GetRowIncrement M' = GetRowIncrement M \<and>
           GetColumnIncrement M' = GetColumnIncrement M \<and>
           length (data M') = length (data M) \<and>
           (\<forall>k. k \<noteq> unat a \<longrightarrow> data M' ! k = data M ! k) \<and>
           ConstMatrixReference_call (data M') M' row col = Some v \<and>
           (\<forall>i j. GetIndex M i j \<noteq> GetIndex M row col \<longrightarrow>
              ConstMatrixReference_call (data M') M' i j = ConstMatrixReference_call (data M) M i j)"
proof -
  let ?M' = "M\<lparr> data := (data M)[unat a := v] \<rparr>"
  obtain p where p: "pData M = Some p" and a: "p + GetIndex M row col = a"
    using assms(1) by (cases "pData M") (auto simp: MatrixReference_call_def ptr_add_def)
  have step: "Matrix_assign M row col v = Some ?M'"
    using assms by (simp add: Matrix_assign_def store_def)
  have meta: "pData ?M' = pData M" "NumRows ?M' = NumRows M" "NumColumns ?M' = NumColumns M"
    "GetLayout ?M' = GetLayout M" "GetRowIncrement ?M' = GetRowIncrement M"
    "GetColumnIncrement ?M' = GetColumnIncrement M" "length (data ?M') = length (data M)"
    by (simp_all add: NumRows_def NumColumns_def GetLayout_def GetRowIncrement_def
        GetColumnIncrement_def split: MatrixLayout.split)
  have others: "\<forall>k. k \<noteq> unat a \<longrightarrow> data ?M' ! k = data M ! k"
    by simp
  have idx: "GetIndex ?M' i j = GetIndex M i j" for i j
    by (simp add: GetIndex_def split: MatrixLayout.split)
  have readback: "ConstMatrixReference_call (data ?M') ?M' row col = Some v"
    using assms(2) by (simp add: ConstMatrixReference_call_def idx p a ptr_add_def load_def)
  have frame: "ConstMatrixReference_call (data ?M') ?M' i j = ConstMatrixReference_call (data M) M i j"
    if "GetIndex M i j \<noteq> GetIndex M row col" for i j
  proof -
    from that have "unat (p + GetIndex M i j) \<noteq> unat a"
      using a by (auto simp: word_unat_eq_iff [symmetric])
    then show ?thesis
      by (simp add: ConstMatrixReference_call_def idx p ptr_add_def load_def)
  qed
  show ?thesis using step meta others readback frame by blast
qed

lemma GetIndex_increments:
  "GetIndex M row col = row * GetRowIncrement M + col * GetColumnIncrement M"
  by (cases "layout M") (simp_all add: GetIndex_def GetRowIncrement_def GetColumnIncrement_def)

lemma valid_position_in_buffer:
  assumes p: "pData M = Some p"
    and fits: "unat p + (unat (NumRows M) - 1) * unat (GetRowIncrement M) +
                 (unat (NumColumns M) - 1) * unat (GetColumnIncrement M) < length (data M)"
    and len: "length (data M) \<le> 2 ^ 64"
    and row: "row < NumRows M" and col: "col < NumColumns M"
  shows "MatrixReference_call M row col = Some (p + GetIndex M row col)"
    and "unat (p + GetIndex M row col) < length (data M)"
proof -
  let ?n = "unat p + unat row * unat (GetRowIncrement M) + unat col * unat (GetColumnIncrement M)"
  show "MatrixReference_call M row col = Some (p + GetIndex M row col)"
    by (simp add: MatrixReference_call_def ptr_add_def p)
  have "unat row \<le> unat (NumRows M) - 1" "unat col \<le> unat (NumColumns M) - 1"
    using row col by (simp_all add: word_less_nat_alt)
  then have "unat row * unat (GetRowIncrement M) \<le> (unat (NumRows M) - 1) * unat (GetRowIncrement M)"
    and "unat col * unat (GetColumnIncrement M) \<le>
           (unat (NumColumns M) - 1) * unat (GetColumnIncrement M)"
    by (simp_all add: mult_le_mono1)
  then have n: "?n < length (data M)"
    using fits by linarith
  then have small: "?n < 2 ^ 64"
    using len by linarith
  have e: "p + GetIndex M row col = of_nat ?n"
    by (simp add: GetIndex_increments)
  have u: "unat (of_nat ?n :: size_t) = ?n"
    by (rule unat_of_nat_64 [OF small])
  have "unat (p + GetIndex M row col) = ?n"
    unfolding e by (rule u)
  then show "unat (p + GetIndex M row col) < length (data M)"
    using n by simp
qed

lemma Matrix_ctor_fits:
  assumes "unat nr * unat nc < 2 ^ 64" and "0 < nr" and "0 < nc"
  shows "pData (Matrix_ctor lay nr nc :: ('a::zero) Matrix) = Some 0"
    and "unat (0::size_t) +
           (unat (NumRows (Matrix_ctor lay nr nc :: 'a Matrix)) - 1) *
             unat (GetRowIncrement (Matrix_ctor lay nr nc :: 'a Matrix)) +
           (unat (NumColumns (Matrix_ctor lay nr nc :: 'a Matrix)) - 1) *
             unat (GetColumnIncrement (Matrix_ctor lay nr nc :: 'a Matrix))
         < length (data (Matrix_ctor lay nr nc :: 'a Matrix))"
    and "length (data (Matrix_ctor lay nr nc :: 'a Matrix)) \<le> 2 ^ 64"
proof -
  let ?M = "Matrix_ctor lay nr nc :: 'a Matrix"
  let ?R = "unat nr" and ?C = "unat nc"
  have pos: "0 < ?R" "0 < ?C"
    using assms(2,3) by (simp_all add: word_less_nat_alt)
  have prod: "unat (nr * nc) = ?R * ?C"
    using assms(1) by (simp add: unat_mult_lem [THEN iffD1])
  have len: "length (data ?M) = ?R * ?C"
    by (simp add: Matrix_ctor_def Matrix_init_def MatrixBase.extend_def Matrix.fields_def prod)
  show "pData ?M = Some 0"
    using pos by (simp add: Matrix_ctor_def Matrix_init_def vector_data_def MatrixBase.extend_def
        Matrix.fields_def prod)
  show "length (data ?M) \<le> 2 ^ 64"
    using len assms(1) by simp
  have last: "offset_nat lay ?R ?C (?R - 1) (?C - 1) < ?R * ?C"
    using pos by (intro offset_nat_less) simp_all
  have "(?R - 1) * unat (GetRowIncrement ?M) + (?C - 1) * unat (GetColumnIncrement ?M) =
          offset_nat lay ?R ?C (?R - 1) (?C - 1)"
    by (cases lay)
       (simp_all add: Matrix_ctor_def Matrix_init_def MatrixBase_ctor_def MatrixBase.extend_def
          GetRowIncrement_def GetColumnIncrement_def offset_nat_def)
  then show "unat (0::size_t) + (unat (NumRows ?M) - 1) * unat (GetRowIncrement ?M) +
      (unat (NumColumns ?M) - 1) * unat (GetColumnIncrement ?M) < length (data ?M)"
    using last len
    by (simp add: NumRows_def NumColumns_def Matrix_ctor_def Matrix_init_def MatrixBase_ctor_def
        MatrixBase.extend_def)
qed

text \<open>
  C10, as the code has it. A view need not lie within its buffer: the matrix constructed
  by \<^verbatim>\<open>Matrix(2^33, 2^33)\<close> has an empty buffer (the product wraps to 0), \<open>(0, 0)\<close> is a
  valid index pair of it, and the assignment through the mutable accessor writes outside
  the buffer.
\<close>

theorem Matrix_assign_outside_buffer:
  "Matrix_construct 9223372036854775807 9223372036854775807 columnMajor 8589934592 8589934592 =
     Inr (Matrix_ctor columnMajor 8589934592 8589934592 :: int Matrix) \<and>
   (0::size_t) < NumRows (Matrix_ctor columnMajor 8589934592 8589934592 :: int Matrix) \<and>
   (0::size_t) < NumColumns (Matrix_ctor columnMajor 8589934592 8589934592 :: int Matrix) \<and>
   Matrix_assign (Matrix_ctor columnMajor 8589934592 8589934592 :: int Matrix) 0 0 5 = None"
  by (simp add: Matrix_construct_def vector_ctor_def Matrix_ctor_def Matrix_init_def
      vector_data_def MatrixBase_ctor_def MatrixBase.extend_def Matrix.fields_def
      NumRows_def NumColumns_def Matrix_assign_def MatrixReference_call_def GetIndex_def
      ptr_add_def store_def)

text \<open>
  C10 (amended). Let a mutable view, paired with the buffer it points into, lie within
  that buffer: its base pointer is not null, and the position of its last element
  \<open>(NumRows - 1, NumColumns - 1)\<close>, computed without wrap-around from the base position and
  the two increments, is a position of the buffer (whose length fits a \<^verbatim>\<open>size_t\<close>). Then
  for every valid \<open>(row, col)\<close>, that is \<open>row < NumRows\<close> and \<open>col < NumColumns\<close>, assigning
  \<open>v\<close> through the mutable accessor succeeds and changes the buffer position at
  \<open>offset(row, col)\<close> only: the pointer, the dimensions, the layout and both increments are
  unchanged, the buffer keeps its length and every other position its value, every
  element \<open>(i, j)\<close> with a different offset reads as before, and the read-only accessor
  at \<open>(row, col)\<close> returns \<open>v\<close>. Every matrix constructed with dimensions whose product
  does not overflow lies within its buffer (\<open>Matrix_ctor_fits\<close>).
\<close>

theorem Matrix_assign_frame:
  assumes "pData M = Some p"
    and "unat p + (unat (NumRows M) - 1) * unat (GetRowIncrement M) +
           (unat (NumColumns M) - 1) * unat (GetColumnIncrement M) < length (data M)"
    and "length (data M) \<le> 2 ^ 64"
    and "row < NumRows M" and "col < NumColumns M"
  shows "\<exists>M'. Matrix_assign M row col v = Some M' \<and>
           pData M' = pData M \<and> NumRows M' = NumRows M \<and> NumColumns M' = NumColumns M \<and>
           GetLayout M' = GetLayout M \<and> GetRowIncrement M' = GetRowIncrement M \<and>
           GetColumnIncrement M' = GetColumnIncrement M \<and>
           length (data M') = length (data M) \<and>
           (\<forall>k. k \<noteq> unat (p + GetIndex M row col) \<longrightarrow> data M' ! k = data M ! k) \<and>
           ConstMatrixReference_call (data M') M' row col = Some v \<and>
           (\<forall>i j. GetIndex M i j \<noteq> GetIndex M row col \<longrightarrow>
              ConstMatrixReference_call (data M') M' i j = ConstMatrixReference_call (data M) M i j)"
  by (rule store_frame [OF valid_position_in_buffer [OF assms]])

theorem Matrix_assign_frame_witness:
  "pData (Matrix_ctor columnMajor 3 3 :: int Matrix) = Some 0 \<and>
   (1::size_t) < NumRows (Matrix_ctor columnMajor 3 3 :: int Matrix) \<and>
   (1::size_t) < NumColumns (Matrix_ctor columnMajor 3 3 :: int Matrix) \<and>
   (\<exists>M'. Matrix_assign (Matrix_ctor columnMajor 3 3 :: int Matrix) 1 1 5 = Some M' \<and>
         NumRows M' = 3 \<and> NumColumns M' = 3 \<and>
         data M' = [0, 0, 0, 0, 5, 0, 0, 0, 0] \<and>
         ConstMatrixReference_call (data M') M' 1 1 = Some 5 \<and>
         ConstMatrixReference_call (data M') M' 2 1 = Some 0)"
proof -
  let ?M = "Matrix_ctor columnMajor 3 3 :: int Matrix"
  have dims: "unat (3::size_t) * unat (3::size_t) < 2 ^ 64" "(0::size_t) < 3"
    by simp_all
  note fits = Matrix_ctor_fits [OF dims(1) dims(2) dims(2), where 'a = int and lay = columnMajor]
  have valid: "(1::size_t) < NumRows ?M" "(1::size_t) < NumColumns ?M"
    by (simp_all add: Matrix_ctor_def Matrix_init_def MatrixBase_ctor_def MatrixBase.extend_def
        NumRows_def NumColumns_def)
  have before: "NumRows ?M = 3" "NumColumns ?M = 3"
    "ConstMatrixReference_call (data ?M) ?M 2 1 = Some 0"
    "GetIndex ?M 2 1 \<noteq> GetIndex ?M 1 1"
    "unat (0 + GetIndex ?M 1 1) = 4"
    by (simp_all add: Matrix_ctor_def Matrix_init_def vector_data_def MatrixBase_ctor_def
        MatrixBase.extend_def Matrix.fields_def NumRows_def NumColumns_def
        ConstMatrixReference_call_def GetIndex_def ptr_add_def load_def)
  have direct: "Matrix_assign ?M 1 1 5 =
      Some \<lparr> pData = Some 0, numRows = 3, numColumns = 3, layout = columnMajor, increment = 3,
             data = [0, 0, 0, 0, 5, 0, 0, 0, 0] \<rparr>"
    by code_simp
  from Matrix_assign_frame [OF fits valid, of 5]
  obtain M' where "Matrix_assign ?M 1 1 5 = Some M'"
    and "NumRows M' = NumRows ?M" and "NumColumns M' = NumColumns ?M"
    and "ConstMatrixReference_call (data M') M' 1 1 = Some 5"
    and "\<And>i j. GetIndex ?M i j \<noteq> GetIndex ?M 1 1 \<Longrightarrow>
           ConstMatrixReference_call (data M') M' i j = ConstMatrixReference_call (data ?M) ?M i j"
    by blast
  then show ?thesis using fits(1) valid before direct by auto
qed

end
